theory Spec2Isabelle
  imports Complex_Main "HOL-Library.Sublist"
begin

section \<open>The crash map server (main.py)\<close>

text \<open>
  The program loads \<^verbatim>\<open>locations.csv\<close> with pandas, keeps the rows whose
  \<^verbatim>\<open>Crash_Severity\<close> is \<^verbatim>\<open>'Fatal'\<close> in the global variable \<^verbatim>\<open>fatal\<close>, and on a
  request for \<^verbatim>\<open>/crashmap\<close> builds a folium map from that variable.

  pandas, folium and Flask are libraries the program calls. Their objects are modelled by
  the arguments the program passes, by the checks the library makes on them, and by the
  order in which the program attaches them; their rendering is kept symbolic.
\<close>

subsection \<open>Data\<close>

text \<open>
  A Python float is the real number it denotes, or NaN: the program stores and copies
  floats and never computes with them. pandas reads an empty field of a numeric column
  as NaN.
\<close>

datatype pyfloat = Float real | NaN

text \<open>
  A field of the count column once read: an integer while every line has a count; with a
  count missing anywhere pandas reads the whole column as floats.
\<close>

datatype count = Count int | Count_float pyfloat

text \<open>
  A field of a text column once read: its text; a number, where inference has turned the
  column into numbers; or missing (the float NaN).
\<close>

datatype cell = Text string | Number int | Missing

text \<open>
  One row, with the columns the program names; the file is taken to have these columns.
  The types of the fields are parameters. In a line of the file a coordinate or a count
  is the number written in the field, \<open>None\<close> for an empty field, and a text field is the
  text as written. In a table that pandas has read they are floats, counts and cells.
\<close>

record ('f, 'n, 't) crash_row =
  Crash_Latitude_GDA94 :: 'f
  Crash_Longitude_GDA94 :: 'f
  Count_Casualty_Fatality :: 'n
  Crash_Nature :: 't
  Crash_Type :: 't
  Crash_Severity :: 't
  Loc_Post_Code :: 't

type_synonym csv_file = "(real option, int option, string) crash_row list"
type_synonym dataframe = "(pyfloat, count, cell) crash_row list"

datatype py_error = TypeError | ValueError | FileNotFoundError

text \<open>
  The process: the files it can read, the global \<^verbatim>\<open>fatal\<close> (\<open>None\<close> until a load has
  assigned it, line 19) and what it has printed.
\<close>

record state =
  files :: "string \<rightharpoonup> csv_file"
  fatal :: "dataframe option"
  stdout :: "string list"

definition print :: "string \<Rightarrow> state \<Rightarrow> state" where
  "print line s = s\<lparr>stdout := stdout s @ [line]\<rparr>"

subsection \<open>Loading: \<^verbatim>\<open>pd.read_csv\<close> and \<^verbatim>\<open>load_crash_data\<close>\<close>

text \<open>
  The \<^verbatim>\<open>dtype\<close> argument of \<^verbatim>\<open>read_csv\<close> maps column names to types; the program
  uses the type \<^verbatim>\<open>str\<close> only.
\<close>

datatype dtype = str

text \<open>The strings pandas reads as a missing value by default (its \<^verbatim>\<open>STR_NA_VALUES\<close>).\<close>

definition STR_NA_VALUES :: "string list" where
  "STR_NA_VALUES =
     ['''', ''#N/A'', ''#N/A N/A'', ''#NA'', ''-1.#IND'', ''-1.#QNAN'', ''-NaN'', ''-nan'',
      ''1.#IND'', ''1.#QNAN'', ''<NA>'', ''N/A'', ''NA'', ''NULL'', ''NaN'', ''None'',
      ''n/a'', ''nan'', ''null'']"

text \<open>A field of a column declared \<^verbatim>\<open>str\<close>: kept as written, unless it is a missing-value marker.\<close>

definition as_str :: "string \<Rightarrow> cell" where
  "as_str field = (if field \<in> set STR_NA_VALUES then Missing else Text field)"

text \<open>A field of a float column, and a field of the count column (\<open>whole\<close>: no line lacks a count).\<close>

definition float_column :: "real option \<Rightarrow> pyfloat" where
  "float_column field = (case field of None \<Rightarrow> NaN | Some x \<Rightarrow> Float x)"

definition count_column :: "bool \<Rightarrow> int option \<Rightarrow> count" where
  "count_column whole field =
     (case field of
        None \<Rightarrow> Count_float NaN
      | Some n \<Rightarrow> if whole then Count n else Count_float (Float (of_int n)))"

text \<open>
  A field of a text column: as \<^verbatim>\<open>dtype\<close> says when it has an entry for the column;
  otherwise pandas infers a type from the whole column, and what it infers is left open:
  it is the parameter \<open>infer\<close> (given the column's name, the column, then the field).
\<close>

definition text_column ::
  "(string \<Rightarrow> string list \<Rightarrow> string \<Rightarrow> cell) \<Rightarrow> (string \<times> dtype) list \<Rightarrow> string \<Rightarrow> string list
     \<Rightarrow> string \<Rightarrow> cell" where
  "text_column infer dtypes name column field =
     (case map_of dtypes name of
        Some str \<Rightarrow> as_str field
      | None \<Rightarrow> infer name column field)"

text \<open>
  \<^verbatim>\<open>pd.read_csv(path, dtype=...)\<close>, a library call, modelled as pandas documents it. A
  missing file raises; otherwise every line gives one row, in the order of the file.
\<close>

definition read_csv ::
  "(string \<Rightarrow> string list \<Rightarrow> string \<Rightarrow> cell) \<Rightarrow> (string \<rightharpoonup> csv_file) \<Rightarrow> string
     \<Rightarrow> (string \<times> dtype) list \<Rightarrow> py_error + dataframe" where
  "read_csv infer fs path dtypes =
     (case fs path of
        None \<Rightarrow> Inl FileNotFoundError
      | Some lines \<Rightarrow>
          let whole = list_all (\<lambda>r. Count_Casualty_Fatality r \<noteq> None) lines
          in Inr (map (\<lambda>r.
               \<lparr>Crash_Latitude_GDA94 = float_column (Crash_Latitude_GDA94 r),
                Crash_Longitude_GDA94 = float_column (Crash_Longitude_GDA94 r),
                Count_Casualty_Fatality = count_column whole (Count_Casualty_Fatality r),
                Crash_Nature = text_column infer dtypes ''Crash_Nature''
                  (map Crash_Nature lines) (Crash_Nature r),
                Crash_Type = text_column infer dtypes ''Crash_Type''
                  (map Crash_Type lines) (Crash_Type r),
                Crash_Severity = text_column infer dtypes ''Crash_Severity''
                  (map Crash_Severity lines) (Crash_Severity r),
                Loc_Post_Code = text_column infer dtypes ''Loc_Post_Code''
                  (map Loc_Post_Code lines) (Loc_Post_Code r)\<rparr>) lines))"

text \<open>
  Line 276, \<^verbatim>\<open>crashes[crashes["Crash_Severity"] == 'Fatal']\<close>: the comparison gives one
  boolean per row (true where the field is the text \<^verbatim>\<open>Fatal\<close>), and indexing by that
  mask keeps the rows whose boolean is true.
\<close>

definition severity_is_fatal :: "dataframe \<Rightarrow> bool list" where
  "severity_is_fatal crashes = map (\<lambda>v. v = Text ''Fatal'') (map Crash_Severity crashes)"

definition boolean_index :: "'a list \<Rightarrow> bool list \<Rightarrow> 'a list" where
  "boolean_index frame key = map fst (filter snd (zip frame key))"

definition fatal_filter :: "dataframe \<Rightarrow> dataframe" where
  "fatal_filter crashes = boolean_index crashes (severity_is_fatal crashes)"

text \<open>
  \<^verbatim>\<open>load_crash_data\<close> (lines 258-278); \<open>infer\<close> is passed on to \<^verbatim>\<open>read_csv\<close>. When
  \<^verbatim>\<open>read_csv\<close> raises, the global is left as it was.
\<close>

definition load_crash_data ::
  "(string \<Rightarrow> string list \<Rightarrow> string \<Rightarrow> cell) \<Rightarrow> state \<Rightarrow> state \<times> (py_error + dataframe)" where
  "load_crash_data infer s =
     (let crash_path = ''locations.csv'' in
      case read_csv infer (files s) crash_path [(''Loc_Post_Code'', str)] of
        Inl e \<Rightarrow> (s, Inl e)
      | Inr crashes \<Rightarrow>
          let kept = fatal_filter crashes
          in (s\<lparr>fatal := Some kept\<rparr>, Inr kept))"

subsection \<open>Python values\<close>

text \<open>An exception ends the computation: the rest runs only on a result.\<close>

definition and_then :: "py_error + 'a \<Rightarrow> ('a \<Rightarrow> py_error + 'b) \<Rightarrow> py_error + 'b" where
  "and_then r f = (case r of Inl e \<Rightarrow> Inl e | Inr v \<Rightarrow> f v)"

text \<open>
  A list comprehension \<^verbatim>\<open>[f(x) for x in xs]\<close> whose calls may raise: the first exception
  ends it.
\<close>

fun collect :: "('a \<Rightarrow> py_error + 'b) \<Rightarrow> 'a list \<Rightarrow> py_error + 'b list" where
  "collect f [] = Inr []"
| "collect f (x # xs) =
     and_then (f x) (\<lambda>y. and_then (collect f xs) (\<lambda>ys. Inr (y # ys)))"

text \<open>
  \<^verbatim>\<open>list(fatal[column])\<close>: subscripting \<^verbatim>\<open>None\<close> raises \<^verbatim>\<open>TypeError\<close>; a frame gives
  the column, top to bottom.
\<close>

definition getitem ::
  "dataframe option \<Rightarrow> ((pyfloat, count, cell) crash_row \<Rightarrow> 'a) \<Rightarrow> py_error + 'a list" where
  "getitem frame column =
     (case frame of None \<Rightarrow> Inl TypeError | Some rows \<Rightarrow> Inr (map column rows))"

text \<open>An integer inside an f-string: its decimal digits, after a minus sign when negative.\<close>

fun digits :: "nat \<Rightarrow> string" where
  "digits n =
     (if n < 10 then [''0123456789'' ! n]
      else digits (n div 10) @ [''0123456789'' ! (n mod 10)])"

declare digits.simps [simp del]

definition format_int :: "int \<Rightarrow> string" where
  "format_int i = (if i < 0 then CHR ''-'' # digits (nat (- i)) else digits (nat i))"

text \<open>
  A count inside an f-string. How Python writes a float that is a number is left open:
  it is the parameter \<open>float_repr\<close>. NaN is written \<^verbatim>\<open>nan\<close>.
\<close>

fun format_count :: "(real \<Rightarrow> string) \<Rightarrow> count \<Rightarrow> string" where
  "format_count float_repr (Count n) = format_int n"
| "format_count float_repr (Count_float (Float x)) = float_repr x"
| "format_count float_repr (Count_float NaN) = ''nan''"

subsection \<open>folium objects\<close>

text \<open>
  Each folium object is the record of the arguments the program constructs it with, and
  of the children added to it, in the order of the \<^verbatim>\<open>add_to\<close> calls.
\<close>

record circle_marker =
  location :: "real list"
  radius :: int
  color :: string
  fill :: bool
  fill_color :: string
  fillOpacity :: real
  opacity :: real
  tooltip :: string
  popup :: cell

text \<open>\<^verbatim>\<open>TileLayer(tiles, name, show)\<close>\<close>
datatype tile_layer = TileLayer string string bool

text \<open>\<^verbatim>\<open>FeatureGroup(name, show)\<close> and the markers added to it\<close>
datatype feature_group = FeatureGroup string bool "circle_marker list"

text \<open>\<^verbatim>\<open>MarkerCluster(name, show, control)\<close> and the markers added to it\<close>
datatype marker_cluster = MarkerCluster string bool bool "circle_marker list"

text \<open>A heat map as constructed: its points, then \<^verbatim>\<open>name, show, control, min_opacity\<close>\<close>
datatype heat_map = HeatMap "real list list" string bool bool real

datatype layer_control = LayerControl

datatype element =
    Tile tile_layer
  | Group feature_group
  | Cluster marker_cluster
  | Heat heat_map
  | Control layer_control

record folium_map =
  tiles :: "string option"
  map_location :: "real \<times> real"
  zoom_start :: int
  width :: string
  height :: string
  control_scale :: bool
  children :: "element list"

text \<open>
  folium checks every location it is given: it must be two coordinates, and neither may
  be NaN; otherwise the constructor raises \<^verbatim>\<open>ValueError\<close>.
\<close>

fun validate_location :: "pyfloat list \<Rightarrow> py_error + real list" where
  "validate_location [Float y, Float x] = Inr [y, x]"
| "validate_location coords = Inl ValueError"

text \<open>
  The call \<^verbatim>\<open>folium.CircleMarker(location, radius, color, fill, fill_color, fillOpacity,
  opacity, tooltip, popup)\<close>.
\<close>

definition new_CircleMarker ::
  "pyfloat list \<Rightarrow> int \<Rightarrow> string \<Rightarrow> bool \<Rightarrow> string \<Rightarrow> real \<Rightarrow> real \<Rightarrow> string \<Rightarrow> cell
     \<Rightarrow> py_error + circle_marker" where
  "new_CircleMarker coords rad line_color filled inner_color inner_opacity line_opacity
     label detail =
     and_then (validate_location coords) (\<lambda>checked.
       Inr \<lparr>location = checked, radius = rad, color = line_color, fill = filled,
            fill_color = inner_color, fillOpacity = inner_opacity, opacity = line_opacity,
            tooltip = label, popup = detail\<rparr>)"

text \<open>
  The call \<^verbatim>\<open>HeatMap(data, name, show, control, min_opacity)\<close>: every point of the data
  is checked as a location.
\<close>

definition new_HeatMap ::
  "pyfloat list list \<Rightarrow> string \<Rightarrow> bool \<Rightarrow> bool \<Rightarrow> real \<Rightarrow> py_error + heat_map" where
  "new_HeatMap data name shown control least =
     and_then (collect validate_location data) (\<lambda>points.
       Inr (HeatMap points name shown control least))"

text \<open>\<^verbatim>\<open>child.add_to(parent)\<close>, for each kind of parent the program uses.\<close>

fun add_to_group :: "circle_marker \<Rightarrow> feature_group \<Rightarrow> feature_group" where
  "add_to_group circ_mkr (FeatureGroup name shown markers) =
     FeatureGroup name shown (markers @ [circ_mkr])"

fun add_to_cluster :: "circle_marker \<Rightarrow> marker_cluster \<Rightarrow> marker_cluster" where
  "add_to_cluster circ_mkr (MarkerCluster name shown control markers) =
     MarkerCluster name shown control (markers @ [circ_mkr])"

definition add_to_map :: "element \<Rightarrow> folium_map \<Rightarrow> folium_map" where
  "add_to_map child m = m\<lparr>children := children m @ [child]\<rparr>"

subsection \<open>The layer builders\<close>

text \<open>\<^verbatim>\<open>add_heat_map\<close> (lines 22-44).\<close>

definition add_heat_map :: "state \<Rightarrow> folium_map \<Rightarrow> py_error + folium_map" where
  "add_heat_map s folium_map =
     and_then (getitem (fatal s) Crash_Latitude_GDA94) (\<lambda>lat.
     and_then (getitem (fatal s) Crash_Longitude_GDA94) (\<lambda>lng.
       let heat_in = map (\<lambda>(y, x). [y, x]) (zip lat lng)
       in and_then (new_HeatMap heat_in ''Heat Map'' False True 0.5) (\<lambda>heat.
            Inr (add_to_map (Heat heat) folium_map))))"

text \<open>
  The loop of \<^verbatim>\<open>add_markers\<close> (lines 80-95) over the zipped columns; \<open>fatal_fg\<close> is the
  group as built so far. A marker that cannot be constructed ends the loop with its
  exception.
\<close>

fun add_markers_loop ::
  "(real \<Rightarrow> string) \<Rightarrow> int \<Rightarrow> real \<Rightarrow> (pyfloat \<times> pyfloat \<times> count \<times> cell \<times> cell) list
     \<Rightarrow> feature_group \<Rightarrow> py_error + feature_group" where
  "add_markers_loop float_repr FATAL_MARKER_SIZE FATAL_MARKER_FILL_OPACITY [] fatal_fg =
     Inr fatal_fg"
| "add_markers_loop float_repr FATAL_MARKER_SIZE FATAL_MARKER_FILL_OPACITY
     ((marker_y, marker_x, marker_dc, marker_cn, marker_ct) # rest) fatal_fg =
     and_then
       (new_CircleMarker [marker_y, marker_x]
          FATAL_MARKER_SIZE
          ''red''
          True
          ''red''
          FATAL_MARKER_FILL_OPACITY
          FATAL_MARKER_FILL_OPACITY
          (format_count float_repr marker_dc @ '' Dead'')
          marker_cn)
       (\<lambda>circ_mkr.
          add_markers_loop float_repr FATAL_MARKER_SIZE FATAL_MARKER_FILL_OPACITY rest
            (add_to_group circ_mkr fatal_fg))"

text \<open>\<^verbatim>\<open>add_markers\<close> (lines 50-101). The group is added to the map after the loop.\<close>

definition add_markers :: "(real \<Rightarrow> string) \<Rightarrow> state \<Rightarrow> folium_map \<Rightarrow> py_error + folium_map" where
  "add_markers float_repr s folium_map =
     and_then (getitem (fatal s) Crash_Latitude_GDA94) (\<lambda>lat.
     and_then (getitem (fatal s) Crash_Longitude_GDA94) (\<lambda>lng.
     and_then (getitem (fatal s) Count_Casualty_Fatality) (\<lambda>dead_count.
     and_then (getitem (fatal s) Crash_Nature) (\<lambda>crash_nature.
     and_then (getitem (fatal s) Crash_Type) (\<lambda>crash_type.
       let FATAL_MARKER_SIZE = 10;
           FATAL_MARKER_FILL_OPACITY = 0.25;
           fatal_fg = FeatureGroup ''Fatal Crashes'' True []
       in and_then
            (add_markers_loop float_repr FATAL_MARKER_SIZE FATAL_MARKER_FILL_OPACITY
               (zip lat (zip lng (zip dead_count (zip crash_nature crash_type)))) fatal_fg)
            (\<lambda>fatal_fg. Inr (add_to_map (Group fatal_fg) folium_map)))))))"

text \<open>The loop of \<^verbatim>\<open>add_clusters\<close> (lines 137-152); \<open>clusters\<close> is the cluster as built so far.\<close>

fun add_clusters_loop ::
  "(real \<Rightarrow> string) \<Rightarrow> int \<Rightarrow> real \<Rightarrow> (pyfloat \<times> pyfloat \<times> count \<times> cell \<times> cell) list
     \<Rightarrow> marker_cluster \<Rightarrow> py_error + marker_cluster" where
  "add_clusters_loop float_repr FATAL_MARKER_SIZE FATAL_MARKER_FILL_OPACITY [] clusters =
     Inr clusters"
| "add_clusters_loop float_repr FATAL_MARKER_SIZE FATAL_MARKER_FILL_OPACITY
     ((marker_y, marker_x, marker_dc, marker_cn, marker_ct) # rest) clusters =
     and_then
       (new_CircleMarker [marker_y, marker_x]
          FATAL_MARKER_SIZE
          ''red''
          True
          ''red''
          FATAL_MARKER_FILL_OPACITY
          FATAL_MARKER_FILL_OPACITY
          (format_count float_repr marker_dc @ '' Dead'')
          marker_cn)
       (\<lambda>circ_mkr.
          add_clusters_loop float_repr FATAL_MARKER_SIZE FATAL_MARKER_FILL_OPACITY rest
            (add_to_cluster circ_mkr clusters))"

text \<open>\<^verbatim>\<open>add_clusters\<close> (lines 107-158).\<close>

definition add_clusters :: "(real \<Rightarrow> string) \<Rightarrow> state \<Rightarrow> folium_map \<Rightarrow> py_error + folium_map" where
  "add_clusters float_repr s folium_map =
     and_then (getitem (fatal s) Crash_Latitude_GDA94) (\<lambda>lat.
     and_then (getitem (fatal s) Crash_Longitude_GDA94) (\<lambda>lng.
     and_then (getitem (fatal s) Count_Casualty_Fatality) (\<lambda>dead_count.
     and_then (getitem (fatal s) Crash_Nature) (\<lambda>crash_nature.
     and_then (getitem (fatal s) Crash_Type) (\<lambda>crash_type.
       let FATAL_MARKER_SIZE = 10;
           FATAL_MARKER_FILL_OPACITY = 0.25;
           clusters = MarkerCluster ''Clustered Markers'' False True []
       in and_then
            (add_clusters_loop float_repr FATAL_MARKER_SIZE FATAL_MARKER_FILL_OPACITY
               (zip lat (zip lng (zip dead_count (zip crash_nature crash_type)))) clusters)
            (\<lambda>clusters. Inr (add_to_map (Cluster clusters) folium_map)))))))"

subsection \<open>The views\<close>

text \<open>
  The three fragments \<^verbatim>\<open>crashmap\<close> takes from the rendered figure are kept symbolic:
  which part, of which map. A page is the template's name with the values passed to it.
\<close>

datatype figure_part = html | header | script

datatype markup = Markup figure_part folium_map

record page =
  template :: string
  map_div :: markup
  hdr_txt :: markup
  script_txt :: markup
  title :: string

definition render_template :: "string \<Rightarrow> markup \<Rightarrow> markup \<Rightarrow> markup \<Rightarrow> string \<Rightarrow> page" where
  "render_template name m h sc t =
     \<lparr>template = name, map_div = m, hdr_txt = h, script_txt = sc, title = t\<rparr>"

text \<open>
  \<^verbatim>\<open>crashmap\<close> (lines 190-252). The map starts with no children (\<^verbatim>\<open>tiles=None\<close>); the
  call that forces the rendering (line 235) adds none.
\<close>

definition crashmap :: "(real \<Rightarrow> string) \<Rightarrow> state \<Rightarrow> py_error + page" where
  "crashmap float_repr s =
     (let start_coords = (-26.52, 153.09);
          folium_map =
            \<lparr>tiles = None, map_location = start_coords, zoom_start = 13,
             width = ''80%'', height = ''80%'', control_scale = True, children = []\<rparr>;
          folium_map =
            add_to_map (Tile (TileLayer ''OpenStreetMap'' ''Open Street Map'' True)) folium_map;
          folium_map =
            add_to_map (Tile (TileLayer ''stamentoner'' ''Black/White Map'' False)) folium_map
      in and_then (add_markers float_repr s folium_map) (\<lambda>folium_map.
         and_then (add_clusters float_repr s folium_map) (\<lambda>folium_map.
         and_then (add_heat_map s folium_map) (\<lambda>folium_map.
           let folium_map = add_to_map (Control LayerControl) folium_map;
               map_div = Markup html folium_map;
               hdr_txt = Markup header folium_map;
               script_txt = Markup script folium_map
           in Inr (render_template ''crashmap.html'' map_div hdr_txt script_txt
                     ''QLD Crash Map Annotated'')))))"

text \<open>
  \<^verbatim>\<open>warmup\<close> (lines 181-187). The function has no \<^verbatim>\<open>return\<close> statement, so where it
  ends without an exception its value is \<^verbatim>\<open>None\<close>.
\<close>

definition warmup ::
  "(string \<Rightarrow> string list \<Rightarrow> string \<Rightarrow> cell) \<Rightarrow> state \<Rightarrow> state \<times> (py_error + page option)" where
  "warmup infer s =
     (let s = print ''data loading ...'' s in
      case load_crash_data infer s of
        (s, Inl e) \<Rightarrow> (s, Inl e)
      | (s, Inr loaded) \<Rightarrow> (print ''data loaded'' s, Inr None))"

text \<open>
  Flask turns what a view returns into a response: a string is the body of a 200
  response, \<^verbatim>\<open>None\<close> is refused with a \<^verbatim>\<open>TypeError\<close>, and an exception that nothing
  handles is answered with 500.
\<close>

definition make_response :: "page option \<Rightarrow> py_error + nat \<times> page" where
  "make_response rv = (case rv of None \<Rightarrow> Inl TypeError | Some body \<Rightarrow> Inr (200, body))"

definition status_code :: "py_error + page option \<Rightarrow> nat" where
  "status_code outcome =
     (case and_then outcome make_response of Inl e \<Rightarrow> 500 | Inr (code, body) \<Rightarrow> code)"

text \<open>The process as the module leaves it when imported: nothing loaded, nothing printed.\<close>

definition initial :: "(string \<rightharpoonup> csv_file) \<Rightarrow> state" where
  "initial fs = \<lparr>files = fs, fatal = None, stdout = []\<rparr>"

section \<open>Reference definitions\<close>

text \<open>A row with both coordinates: neither its latitude nor its longitude is NaN.\<close>

fun is_number :: "pyfloat \<Rightarrow> bool" where
  "is_number (Float x) = True"
| "is_number NaN = False"

definition has_coordinates :: "(pyfloat, count, cell) crash_row \<Rightarrow> bool" where
  "has_coordinates r =
     (is_number (Crash_Latitude_GDA94 r) \<and> is_number (Crash_Longitude_GDA94 r))"

text \<open>
  The marker that section 4.3 of the specification describes for one record: a red,
  translucent circle of radius 10 at the record's coordinates, labelled with the fatality
  count and carrying the crash nature. The loops of the program are compared with it.
\<close>

definition record_marker ::
  "(real \<Rightarrow> string) \<Rightarrow> (pyfloat, count, cell) crash_row \<Rightarrow> py_error + circle_marker" where
  "record_marker float_repr r =
     new_CircleMarker [Crash_Latitude_GDA94 r, Crash_Longitude_GDA94 r] 10 ''red'' True ''red''
       0.25 0.25 (format_count float_repr (Count_Casualty_Fatality r) @ '' Dead'')
       (Crash_Nature r)"

text \<open>The point section 4.5 describes for one record: its latitude, then its longitude.\<close>

definition heat_point :: "(pyfloat, count, cell) crash_row \<Rightarrow> py_error + real list" where
  "heat_point r = validate_location [Crash_Latitude_GDA94 r, Crash_Longitude_GDA94 r]"

text \<open>The kinds of layer that section 4.6 counts in a composed map.\<close>

fun is_base_layer :: "element \<Rightarrow> bool" where
  "is_base_layer (Tile t) = True"
| "is_base_layer e = False"

fun is_data_layer :: "element \<Rightarrow> bool" where
  "is_data_layer (Group g) = True"
| "is_data_layer (Cluster c) = True"
| "is_data_layer (Heat h) = True"
| "is_data_layer e = False"

fun is_control :: "element \<Rightarrow> bool" where
  "is_control (Control c) = True"
| "is_control e = False"

text \<open>The number a string of decimal digits denotes.\<close>

definition digit_value :: "char \<Rightarrow> nat" where
  "digit_value c = of_char c - 48"

definition decimal_value :: "string \<Rightarrow> nat" where
  "decimal_value cs = foldl (\<lambda>n c. 10 * n + digit_value c) 0 cs"

text \<open>A post code written with digits only, such as \<^verbatim>\<open>0800\<close>.\<close>

definition digit_string :: "string \<Rightarrow> bool" where
  "digit_string field = (field \<noteq> [] \<and> list_all (\<lambda>c. c \<in> set ''0123456789'') field)"

text \<open>Two tables with the same rows but for what their \<^verbatim>\<open>Crash_Type\<close> column holds.\<close>

definition differ_only_in_Crash_Type :: "dataframe \<Rightarrow> dataframe \<Rightarrow> bool" where
  "differ_only_in_Crash_Type F F' =
     list_all2 (\<lambda>r r'.
         Crash_Latitude_GDA94 r' = Crash_Latitude_GDA94 r
       \<and> Crash_Longitude_GDA94 r' = Crash_Longitude_GDA94 r
       \<and> Count_Casualty_Fatality r' = Count_Casualty_Fatality r
       \<and> Crash_Nature r' = Crash_Nature r
       \<and> Crash_Severity r' = Crash_Severity r
       \<and> Loc_Post_Code r' = Loc_Post_Code r) F F'"

subsection \<open>Sample data\<close>

text \<open>
  Five lines of a file, three of them fatal (one of the others differs from \<open>Fatal\<close> in
  case only, and one post code starts with a zero); the table pandas reads from them when
  it keeps the text columns as text, and the rows a load keeps of it; the same rows with
  other crash types; a process that has this file and has loaded nothing; and a map with
  no children.
\<close>

definition crash :: "'f \<Rightarrow> 'f \<Rightarrow> 'n \<Rightarrow> 't \<Rightarrow> 't \<Rightarrow> 't \<Rightarrow> 't \<Rightarrow> ('f, 'n, 't) crash_row" where
  "crash lat lng dead nature kind severity post_code =
     \<lparr>Crash_Latitude_GDA94 = lat, Crash_Longitude_GDA94 = lng, Count_Casualty_Fatality = dead,
      Crash_Nature = nature, Crash_Type = kind, Crash_Severity = severity,
      Loc_Post_Code = post_code\<rparr>"

definition keep_text :: "string \<Rightarrow> string list \<Rightarrow> string \<Rightarrow> cell" where
  "keep_text name column field = as_str field"

definition sample_lines :: csv_file where
  "sample_lines =
     [crash (Some (-26.5)) (Some 153.1) (Some 2) ''Head-on'' ''Multi-Vehicle'' ''Fatal'' ''4551'',
      crash (Some (-27.47)) (Some 153.02) (Some 0) ''Rear-end'' ''Multi-Vehicle''
        ''Hospitalisation'' ''4000'',
      crash (Some (-12.46)) (Some 130.84) (Some 1) ''Hit pedestrian'' ''Hit pedestrian''
        ''Fatal'' ''0800'',
      crash (Some (-16.92)) (Some 145.77) (Some 1) ''Overturned'' ''Single Vehicle'' ''fatal''
        ''4870'',
      crash (Some (-19.26)) (Some 146.82) (Some 12) ''Angle'' ''Multi-Vehicle'' ''Fatal''
        ''4810'']"

definition sample_table :: dataframe where
  "sample_table =
     [crash (Float (-26.5)) (Float 153.1) (Count 2) (Text ''Head-on'') (Text ''Multi-Vehicle'')
        (Text ''Fatal'') (Text ''4551''),
      crash (Float (-27.47)) (Float 153.02) (Count 0) (Text ''Rear-end'') (Text ''Multi-Vehicle'')
        (Text ''Hospitalisation'') (Text ''4000''),
      crash (Float (-12.46)) (Float 130.84) (Count 1) (Text ''Hit pedestrian'')
        (Text ''Hit pedestrian'') (Text ''Fatal'') (Text ''0800''),
      crash (Float (-16.92)) (Float 145.77) (Count 1) (Text ''Overturned'')
        (Text ''Single Vehicle'') (Text ''fatal'') (Text ''4870''),
      crash (Float (-19.26)) (Float 146.82) (Count 12) (Text ''Angle'') (Text ''Multi-Vehicle'')
        (Text ''Fatal'') (Text ''4810'')]"

definition sample_fatal :: dataframe where
  "sample_fatal =
     [crash (Float (-26.5)) (Float 153.1) (Count 2) (Text ''Head-on'') (Text ''Multi-Vehicle'')
        (Text ''Fatal'') (Text ''4551''),
      crash (Float (-12.46)) (Float 130.84) (Count 1) (Text ''Hit pedestrian'')
        (Text ''Hit pedestrian'') (Text ''Fatal'') (Text ''0800''),
      crash (Float (-19.26)) (Float 146.82) (Count 12) (Text ''Angle'') (Text ''Multi-Vehicle'')
        (Text ''Fatal'') (Text ''4810'')]"

definition sample_retyped :: dataframe where
  "sample_retyped =
     [crash (Float (-26.5)) (Float 153.1) (Count 2) (Text ''Head-on'') (Text ''Other'')
        (Text ''Fatal'') (Text ''4551''),
      crash (Float (-12.46)) (Float 130.84) (Count 1) (Text ''Hit pedestrian'') Missing
        (Text ''Fatal'') (Text ''0800''),
      crash (Float (-19.26)) (Float 146.82) (Count 12) (Text ''Angle'') (Text ''Single Vehicle'')
        (Text ''Fatal'') (Text ''4810'')]"

definition sample_state :: state where
  "sample_state = initial [''locations.csv'' \<mapsto> sample_lines]"

definition empty_map :: folium_map where
  "empty_map =
     \<lparr>tiles = None, map_location = (0, 0), zoom_start = 1, width = ''100%'', height = ''100%'',
      control_scale = False, children = []\<rparr>"

text \<open>
  A file of two fatal lines, the second with an empty latitude field and an empty count
  field; the rows a load keeps of it; and a process that has this file.
\<close>

definition gap_lines :: csv_file where
  "gap_lines =
     [crash (Some (-26.5)) (Some 153.1) (Some 2) ''Head-on'' ''Multi-Vehicle'' ''Fatal'' ''4551'',
      crash None (Some 130.84) None ''Hit pedestrian'' ''Hit pedestrian'' ''Fatal'' ''0800'']"

definition gap_fatal :: dataframe where
  "gap_fatal =
     [crash (Float (-26.5)) (Float 153.1) (Count_float (Float 2)) (Text ''Head-on'')
        (Text ''Multi-Vehicle'') (Text ''Fatal'') (Text ''4551''),
      crash NaN (Float 130.84) (Count_float NaN) (Text ''Hit pedestrian'')
        (Text ''Hit pedestrian'') (Text ''Fatal'') (Text ''0800'')]"

definition gap_state :: state where
  "gap_state = initial [''locations.csv'' \<mapsto> gap_lines]"

text \<open>
  A stand-in for Python's writing of floats, right for 2.0, the only float the sample
  tables format.
\<close>

definition sample_repr :: "real \<Rightarrow> string" where
  "sample_repr x = ''2.0''"

section \<open>The fatal-crash filter\<close>

lemma boolean_index_map:
  "boolean_index xs (map P xs) = filter P xs"
  unfolding boolean_index_def
  by (induction xs) simp_all

lemma fatal_filter_eq:
  "fatal_filter D = filter (\<lambda>r. Crash_Severity r = Text ''Fatal'') D"
  unfolding fatal_filter_def severity_is_fatal_def
  by (simp add: boolean_index_map [symmetric] comp_def)

section \<open>Loading\<close>

lemma read_csv_None:
  "fs path = None \<Longrightarrow> read_csv infer fs path dtypes = Inl FileNotFoundError"
  by (simp add: read_csv_def)

lemma read_csv_cases:
  "read_csv infer fs path dtypes = Inl FileNotFoundError \<and> fs path = None
   \<or> (\<exists>D. read_csv infer fs path dtypes = Inr D)"
  by (cases "fs path") (simp_all add: read_csv_def Let_def)

lemma load_crash_data_Inr:
  "read_csv infer (files s) ''locations.csv'' [(''Loc_Post_Code'', str)] = Inr D \<Longrightarrow>
   load_crash_data infer s = (s\<lparr>fatal := Some (fatal_filter D)\<rparr>, Inr (fatal_filter D))"
  by (simp add: load_crash_data_def Let_def)

lemma load_crash_data_None:
  "files s ''locations.csv'' = None \<Longrightarrow> load_crash_data infer s = (s, Inl FileNotFoundError)"
  by (simp add: load_crash_data_def read_csv_None)

lemma read_sample:
  "read_csv keep_text (files sample_state) ''locations.csv'' [(''Loc_Post_Code'', str)] =
     Inr sample_table"
  by (simp add: read_csv_def sample_state_def initial_def sample_lines_def sample_table_def
      crash_def float_column_def count_column_def text_column_def keep_text_def as_str_def
      STR_NA_VALUES_def)

lemma filter_sample: "fatal_filter sample_table = sample_fatal"
  by (simp add: fatal_filter_eq sample_table_def sample_fatal_def crash_def)

lemma sample_loaded:
  "load_crash_data keep_text sample_state =
     (sample_state\<lparr>fatal := Some sample_fatal\<rparr>, Inr sample_fatal)"
  using load_crash_data_Inr [OF read_sample] by (simp add: filter_sample)

lemma gap_loaded:
  "load_crash_data keep_text gap_state = (gap_state\<lparr>fatal := Some gap_fatal\<rparr>, Inr gap_fatal)"
  by (simp add: load_crash_data_def read_csv_def gap_state_def initial_def gap_lines_def
      gap_fatal_def crash_def float_column_def count_column_def text_column_def keep_text_def
      as_str_def STR_NA_VALUES_def fatal_filter_eq Let_def)

text \<open>
  C1. For every dataset \<open>D\<close> that \<^verbatim>\<open>load_crash_data\<close> reads from the file, the table it
  stores in the global \<open>fatal\<close> and returns is exactly the records of \<open>D\<close> whose severity
  is the text \<open>Fatal\<close> (compared character by character), in their original order; so
  every record of it is fatal and it is no longer than \<open>D\<close>.
\<close>

theorem load_crash_data_keeps_fatal:
  assumes "read_csv infer (files s) ''locations.csv'' [(''Loc_Post_Code'', str)] = Inr D"
  shows "\<exists>F. load_crash_data infer s = (s\<lparr>fatal := Some F\<rparr>, Inr F)
           \<and> F = filter (\<lambda>r. Crash_Severity r = Text ''Fatal'') D
           \<and> subseq F D
           \<and> (\<forall>r \<in> set F. Crash_Severity r = Text ''Fatal'')
           \<and> length F \<le> length D"
  using load_crash_data_Inr [OF assms] by (simp add: fatal_filter_eq)

text \<open>
  On the sample file the load stores and returns the three fatal rows of the five, in
  order; the row whose severity is \<open>fatal\<close> in lower case is not kept.
\<close>

theorem load_crash_data_keeps_fatal_sample:
  "load_crash_data keep_text sample_state =
     (sample_state\<lparr>fatal := Some sample_fatal\<rparr>, Inr sample_fatal)
   \<and> length sample_table = 5 \<and> length sample_fatal = 3"
proof -
  have keep: "filter (\<lambda>r. Crash_Severity r = Text ''Fatal'') sample_table = sample_fatal"
    by (simp add: sample_table_def sample_fatal_def crash_def)
  have "length sample_table = 5 \<and> length sample_fatal = 3"
    by (simp add: sample_table_def sample_fatal_def)
  then show ?thesis
    using load_crash_data_keeps_fatal [OF read_sample] keep by auto
qed

text \<open>
  C9. The filter is idempotent: filtering a filtered dataset returns it unchanged.
\<close>

theorem fatal_filter_idempotent:
  "fatal_filter (fatal_filter D) = fatal_filter D"
  by (simp add: fatal_filter_eq)

theorem fatal_filter_idempotent_sample:
  "fatal_filter (fatal_filter sample_table) = fatal_filter sample_table
   \<and> length sample_table = 5
   \<and> length (fatal_filter sample_table) = 3"
  using fatal_filter_idempotent [of sample_table]
  by (simp add: fatal_filter_eq sample_table_def crash_def)

lemma digit_string_not_NA: "digit_string field \<Longrightarrow> field \<notin> set STR_NA_VALUES"
  by (auto simp: digit_string_def STR_NA_VALUES_def)

lemma as_str_not_Number: "as_str field \<noteq> Number n"
  by (simp add: as_str_def)

lemma read_csv_post_code:
  assumes "fs path = Some lines"
  shows "\<exists>D. read_csv infer fs path [(''Loc_Post_Code'', str)] = Inr D
           \<and> length D = length lines
           \<and> (\<forall>i<length lines. Loc_Post_Code (D ! i) = as_str (Loc_Post_Code (lines ! i)))"
  using assms by (simp add: read_csv_def text_column_def Let_def)

text \<open>
  With no entry for the column in \<^verbatim>\<open>dtype\<close>, the post codes of the table are what the
  inference makes of the fields.
\<close>

lemma read_csv_without_dtype:
  assumes "fs path = Some lines"
  shows "\<exists>D. read_csv infer fs path [] = Inr D
           \<and> length D = length lines
           \<and> (\<forall>i<length lines.
                 Loc_Post_Code (D ! i) =
                   infer ''Loc_Post_Code'' (map Loc_Post_Code lines) (Loc_Post_Code (lines ! i)))"
  using assms by (simp add: read_csv_def text_column_def Let_def)

text \<open>
  C8. When the file is there, \<^verbatim>\<open>load_crash_data\<close> reads it with the post code column
  declared \<^verbatim>\<open>str\<close>: whatever pandas would infer for that column, every post code written
  with digits only (leading zeros included) is in the loaded table as the text of the
  field, unchanged, and no post code of the table is a number. The global \<open>fatal\<close> is the
  filter of that table.
\<close>

theorem post_code_read_as_text:
  assumes "files s ''locations.csv'' = Some lines"
  shows "\<exists>D. read_csv infer (files s) ''locations.csv'' [(''Loc_Post_Code'', str)] = Inr D
          \<and> load_crash_data infer s = (s\<lparr>fatal := Some (fatal_filter D)\<rparr>, Inr (fatal_filter D))
          \<and> length D = length lines
          \<and> (\<forall>i<length lines.
                (digit_string (Loc_Post_Code (lines ! i)) \<longrightarrow>
                   Loc_Post_Code (D ! i) = Text (Loc_Post_Code (lines ! i)))
              \<and> (\<forall>n. Loc_Post_Code (D ! i) \<noteq> Number n))"
proof -
  from read_csv_post_code [of "files s" "''locations.csv''" lines infer] assms obtain D where
    read: "read_csv infer (files s) ''locations.csv'' [(''Loc_Post_Code'', str)] = Inr D"
    and len: "length D = length lines"
    and each: "\<forall>i<length lines. Loc_Post_Code (D ! i) = as_str (Loc_Post_Code (lines ! i))"
    by blast
  have "load_crash_data infer s = (s\<lparr>fatal := Some (fatal_filter D)\<rparr>, Inr (fatal_filter D))"
    using read by (rule load_crash_data_Inr)
  moreover have "\<forall>i<length lines.
        (digit_string (Loc_Post_Code (lines ! i)) \<longrightarrow>
           Loc_Post_Code (D ! i) = Text (Loc_Post_Code (lines ! i)))
      \<and> (\<forall>n. Loc_Post_Code (D ! i) \<noteq> Number n)"
    using each by (simp add: as_str_not_Number) (simp add: as_str_def digit_string_not_NA)
  ultimately show ?thesis using read len by blast
qed

text \<open>
  On the sample, with an inference that would read every text field as the number 800,
  the third line's post code is still the text \<open>0800\<close>.
\<close>

theorem post_code_read_as_text_sample:
  "\<exists>D. read_csv (\<lambda>name column field. Number 800) (files sample_state) ''locations.csv''
          [(''Loc_Post_Code'', str)] = Inr D
        \<and> fst (load_crash_data (\<lambda>name column field. Number 800) sample_state) =
            sample_state\<lparr>fatal := Some (fatal_filter D)\<rparr>
        \<and> length D = 5
        \<and> Loc_Post_Code (D ! 2) = Text ''0800''"
proof -
  have present: "files sample_state ''locations.csv'' = Some sample_lines"
    by (simp add: sample_state_def initial_def)
  have n: "length sample_lines = 5"
    by (simp add: sample_lines_def)
  have field: "Loc_Post_Code (sample_lines ! 2) = ''0800''"
    by (simp add: sample_lines_def crash_def)
  have digits: "digit_string ''0800''"
    by (simp add: digit_string_def)
  obtain D where
    read: "read_csv (\<lambda>name column field. Number 800) (files sample_state) ''locations.csv''
             [(''Loc_Post_Code'', str)] = Inr D"
    and load: "load_crash_data (\<lambda>name column field. Number 800) sample_state =
             (sample_state\<lparr>fatal := Some (fatal_filter D)\<rparr>, Inr (fatal_filter D))"
    and len: "length D = length sample_lines"
    and each: "\<forall>i<length sample_lines.
                (digit_string (Loc_Post_Code (sample_lines ! i)) \<longrightarrow>
                   Loc_Post_Code (D ! i) = Text (Loc_Post_Code (sample_lines ! i)))
              \<and> (\<forall>n. Loc_Post_Code (D ! i) \<noteq> Number n)"
    using post_code_read_as_text [OF present, of "\<lambda>name column field. Number 800"] by blast
  from each n field digits have "Loc_Post_Code (D ! 2) = Text ''0800''"
    by simp
  with read load len n show ?thesis by simp
qed

section \<open>The layer builders\<close>

lemma digit_value_nth: "d < 10 \<Longrightarrow> digit_value (''0123456789'' ! d) = d"
proof -
  assume "d < 10"
  then consider "d = 0" | "d = 1" | "d = 2" | "d = 3" | "d = 4" | "d = 5" | "d = 6" | "d = 7"
    | "d = 8" | "d = 9"
    by atomize_elim arith
  then show ?thesis
    by cases (simp_all add: digit_value_def)
qed

lemma decimal_value_digits: "decimal_value (digits n) = n"
proof (induction n rule: digits.induct)
  case (1 n)
  show ?case
  proof (cases "n < 10")
    case True
    then show ?thesis
      by (simp add: digits.simps [of n] decimal_value_def digit_value_nth)
  next
    case False
    with "1" have "decimal_value (digits (n div 10)) = n div 10" by simp
    with False show ?thesis
      by (simp add: digits.simps [of n] decimal_value_def digit_value_nth)
  qed
qed

text \<open>For an integer count that is not negative, the formatted text denotes the count.\<close>

lemma decimal_value_format_count:
  "0 \<le> n \<Longrightarrow> decimal_value (format_count float_repr (Count n)) = nat n"
  by (simp add: format_int_def decimal_value_digits)

subsection \<open>Comprehensions and loops\<close>

lemma collect_all:
  assumes ok: "\<And>x. P x \<Longrightarrow> \<exists>y. f x = Inr y"
    and all: "list_all P xs"
  shows "\<exists>ys. collect f xs = Inr ys \<and> length ys = length xs
           \<and> (\<forall>i<length xs. f (xs ! i) = Inr (ys ! i))"
  using all
proof (induction xs)
  case Nil
  then show ?case by simp
next
  case (Cons x xs)
  from Cons.prems have "P x" and "list_all P xs" by simp_all
  from ok [OF \<open>P x\<close>] obtain y where y: "f x = Inr y" by blast
  from Cons.IH [OF \<open>list_all P xs\<close>] obtain ys where
    ys: "collect f xs = Inr ys" "length ys = length xs"
      "\<forall>i<length xs. f (xs ! i) = Inr (ys ! i)"
    by blast
  have "collect f (x # xs) = Inr (y # ys)"
    by (simp add: y ys and_then_def)
  moreover have "length (y # ys) = length (x # xs)"
    by (simp add: ys)
  moreover have "\<forall>i<length (x # xs). f ((x # xs) ! i) = Inr ((y # ys) ! i)"
    using y ys(3) by (auto simp: nth_Cons split: nat.splits)
  ultimately show ?case by blast
qed

lemma collect_some_fail:
  assumes ok: "\<And>x. P x \<Longrightarrow> \<exists>y. f x = Inr y"
    and bad: "\<And>x. \<not> P x \<Longrightarrow> f x = Inl ValueError"
    and some: "\<not> list_all P xs"
  shows "collect f xs = Inl ValueError"
  using some
proof (induction xs)
  case Nil
  then show ?case by simp
next
  case (Cons x xs)
  show ?case
  proof (cases "P x")
    case False
    then show ?thesis by (simp add: bad and_then_def)
  next
    case True
    with Cons.prems have "\<not> list_all P xs" by simp
    from Cons.IH [OF this] have "collect f xs = Inl ValueError" .
    moreover from ok [OF True] obtain y where "f x = Inr y" by blast
    ultimately show ?thesis by (simp add: and_then_def)
  qed
qed

lemma collect_cong_map:
  "map f xs = map g ys \<Longrightarrow> collect f xs = collect g ys"
proof (induction xs arbitrary: ys)
  case Nil
  then show ?case by simp
next
  case (Cons x xs)
  then obtain y ys' where "ys = y # ys'" by (cases ys) auto
  with Cons show ?case by simp
qed

lemma is_number_Float: "is_number c \<Longrightarrow> \<exists>x. c = Float x"
  by (cases c) simp_all

lemma record_marker_ok:
  assumes "has_coordinates r"
  shows "\<exists>c. record_marker float_repr r = Inr c
           \<and> map Float (location c) = [Crash_Latitude_GDA94 r, Crash_Longitude_GDA94 r]
           \<and> tooltip c = format_count float_repr (Count_Casualty_Fatality r) @ '' Dead''
           \<and> popup c = Crash_Nature r"
proof -
  from assms obtain y x where
    "Crash_Latitude_GDA94 r = Float y" "Crash_Longitude_GDA94 r = Float x"
    unfolding has_coordinates_def by (blast dest: is_number_Float)
  then show ?thesis
    by (simp add: record_marker_def new_CircleMarker_def and_then_def)
qed

lemma record_marker_fails:
  assumes "\<not> has_coordinates r"
  shows "record_marker float_repr r = Inl ValueError"
proof (cases "Crash_Latitude_GDA94 r")
  case NaN
  then show ?thesis
    by (simp add: record_marker_def new_CircleMarker_def and_then_def)
next
  case (Float y)
  with assms have "Crash_Longitude_GDA94 r = NaN"
    unfolding has_coordinates_def by (cases "Crash_Longitude_GDA94 r") simp_all
  with Float show ?thesis
    by (simp add: record_marker_def new_CircleMarker_def and_then_def)
qed

lemma heat_point_ok:
  "has_coordinates r \<Longrightarrow>
   \<exists>p. heat_point r = Inr p \<and> map Float p = [Crash_Latitude_GDA94 r, Crash_Longitude_GDA94 r]"
  unfolding has_coordinates_def heat_point_def
  by (auto dest!: is_number_Float)

lemma heat_point_fails: "\<not> has_coordinates r \<Longrightarrow> heat_point r = Inl ValueError"
  unfolding has_coordinates_def heat_point_def
  by (cases "Crash_Latitude_GDA94 r"; cases "Crash_Longitude_GDA94 r") simp_all

lemma zipped_columns:
  "zip (map a F) (zip (map b F) (zip (map c F) (zip (map d F) (map e F)))) =
   map (\<lambda>r. (a r, b r, c r, d r, e r)) F"
  by (induction F) simp_all

lemma add_markers_loop_eq:
  "add_markers_loop float_repr sz op
     (map (\<lambda>r. (Crash_Latitude_GDA94 r, Crash_Longitude_GDA94 r, Count_Casualty_Fatality r,
                 Crash_Nature r, Crash_Type r)) F)
     (FeatureGroup n sh ms) =
   and_then
     (collect (\<lambda>r. new_CircleMarker [Crash_Latitude_GDA94 r, Crash_Longitude_GDA94 r] sz ''red''
         True ''red'' op op (format_count float_repr (Count_Casualty_Fatality r) @ '' Dead'')
         (Crash_Nature r)) F)
     (\<lambda>cs. Inr (FeatureGroup n sh (ms @ cs)))"
proof (induction F arbitrary: ms)
  case Nil
  then show ?case by (simp add: and_then_def)
next
  case (Cons r F)
  show ?case
    by (simp add: Cons.IH and_then_def split: sum.splits)
qed

lemma add_clusters_loop_eq:
  "add_clusters_loop float_repr sz op
     (map (\<lambda>r. (Crash_Latitude_GDA94 r, Crash_Longitude_GDA94 r, Count_Casualty_Fatality r,
                 Crash_Nature r, Crash_Type r)) F)
     (MarkerCluster n sh ct ms) =
   and_then
     (collect (\<lambda>r. new_CircleMarker [Crash_Latitude_GDA94 r, Crash_Longitude_GDA94 r] sz ''red''
         True ''red'' op op (format_count float_repr (Count_Casualty_Fatality r) @ '' Dead'')
         (Crash_Nature r)) F)
     (\<lambda>cs. Inr (MarkerCluster n sh ct (ms @ cs)))"
proof (induction F arbitrary: ms)
  case Nil
  then show ?case by (simp add: and_then_def)
next
  case (Cons r F)
  show ?case
    by (simp add: Cons.IH and_then_def split: sum.splits)
qed

lemma add_markers_Some:
  "fatal s = Some F \<Longrightarrow>
   add_markers float_repr s m =
     and_then (collect (record_marker float_repr) F)
       (\<lambda>ms. Inr (add_to_map (Group (FeatureGroup ''Fatal Crashes'' True ms)) m))"
  by (simp add: add_markers_def getitem_def and_then_def zipped_columns add_markers_loop_eq
      record_marker_def [abs_def] split: sum.splits)

lemma add_clusters_Some:
  "fatal s = Some F \<Longrightarrow>
   add_clusters float_repr s m =
     and_then (collect (record_marker float_repr) F)
       (\<lambda>ms. Inr (add_to_map (Cluster (MarkerCluster ''Clustered Markers'' False True ms)) m))"
  by (simp add: add_clusters_def getitem_def and_then_def zipped_columns add_clusters_loop_eq
      record_marker_def [abs_def] split: sum.splits)

lemma heat_in_eq:
  "collect validate_location
     (map (\<lambda>(y, x). [y, x]) (zip (map Crash_Latitude_GDA94 F) (map Crash_Longitude_GDA94 F))) =
   collect heat_point F"
  by (induction F) (simp_all add: heat_point_def)

lemma add_heat_map_Some:
  "fatal s = Some F \<Longrightarrow>
   add_heat_map s m =
     and_then (collect heat_point F)
       (\<lambda>ps. Inr (add_to_map (Heat (HeatMap ps ''Heat Map'' False True 0.5)) m))"
  by (simp add: add_heat_map_def getitem_def and_then_def new_HeatMap_def heat_in_eq
      split: sum.splits)

lemma add_markers_None: "fatal s = None \<Longrightarrow> add_markers float_repr s m = Inl TypeError"
  by (simp add: add_markers_def getitem_def and_then_def)

lemma add_clusters_None: "fatal s = None \<Longrightarrow> add_clusters float_repr s m = Inl TypeError"
  by (simp add: add_clusters_def getitem_def and_then_def)

lemma add_heat_map_None: "fatal s = None \<Longrightarrow> add_heat_map s m = Inl TypeError"
  by (simp add: add_heat_map_def getitem_def and_then_def)

lemma markers_ok:
  assumes "list_all has_coordinates F"
  shows "\<exists>ms. collect (record_marker float_repr) F = Inr ms \<and> length ms = length F
           \<and> (\<forall>i<length F.
                 map Float (location (ms ! i)) =
                   [Crash_Latitude_GDA94 (F ! i), Crash_Longitude_GDA94 (F ! i)]
               \<and> tooltip (ms ! i) =
                   format_count float_repr (Count_Casualty_Fatality (F ! i)) @ '' Dead''
               \<and> popup (ms ! i) = Crash_Nature (F ! i))"
proof -
  have ok: "\<And>r. has_coordinates r \<Longrightarrow> \<exists>c. record_marker float_repr r = Inr c"
    using record_marker_ok by blast
  from collect_all [of has_coordinates "record_marker float_repr", OF ok assms]
  obtain ms where ms: "collect (record_marker float_repr) F = Inr ms" "length ms = length F"
    "\<forall>i<length F. record_marker float_repr (F ! i) = Inr (ms ! i)"
    by blast
  have "\<forall>i<length F.
          map Float (location (ms ! i)) =
            [Crash_Latitude_GDA94 (F ! i), Crash_Longitude_GDA94 (F ! i)]
        \<and> tooltip (ms ! i) =
            format_count float_repr (Count_Casualty_Fatality (F ! i)) @ '' Dead''
        \<and> popup (ms ! i) = Crash_Nature (F ! i)"
  proof (intro allI impI)
    fix i assume i: "i < length F"
    with assms have "has_coordinates (F ! i)" by (simp add: list_all_length)
    from record_marker_ok [OF this, of float_repr] ms(3) i
    show "map Float (location (ms ! i)) =
            [Crash_Latitude_GDA94 (F ! i), Crash_Longitude_GDA94 (F ! i)]
        \<and> tooltip (ms ! i) =
            format_count float_repr (Count_Casualty_Fatality (F ! i)) @ '' Dead''
        \<and> popup (ms ! i) = Crash_Nature (F ! i)"
      by auto
  qed
  with ms show ?thesis by blast
qed

lemma markers_fail:
  "\<not> list_all has_coordinates F \<Longrightarrow> collect (record_marker float_repr) F = Inl ValueError"
  using record_marker_ok record_marker_fails
  by (intro collect_some_fail [of has_coordinates]) blast+

lemma points_ok:
  assumes "list_all has_coordinates F"
  shows "\<exists>ps. collect heat_point F = Inr ps \<and> length ps = length F"
proof -
  have ok: "\<And>r. has_coordinates r \<Longrightarrow> \<exists>p. heat_point r = Inr p"
    using heat_point_ok by blast
  from collect_all [of has_coordinates heat_point, OF ok assms] show ?thesis by blast
qed

lemma points_fail:
  "\<not> list_all has_coordinates F \<Longrightarrow> collect heat_point F = Inl ValueError"
  using heat_point_ok heat_point_fails
  by (intro collect_some_fail [of has_coordinates]) blast+

subsection \<open>Markers, clusters and the heat map\<close>

text \<open>
  C2, as claimed, fails: the loaded table can hold a fatal record without a coordinate,
  and then \<^verbatim>\<open>add_markers\<close> produces no marker at all. The file of two fatal lines whose
  second latitude is empty loads as two rows, and on them \<^verbatim>\<open>add_markers\<close> raises
  \<^verbatim>\<open>ValueError\<close>.
\<close>

theorem add_markers_missing_coordinate:
  "load_crash_data keep_text gap_state = (gap_state\<lparr>fatal := Some gap_fatal\<rparr>, Inr gap_fatal)
   \<and> length gap_fatal = 2
   \<and> add_markers sample_repr (gap_state\<lparr>fatal := Some gap_fatal\<rparr>) empty_map = Inl ValueError"
  by (simp add: gap_loaded)
     (simp add: gap_fatal_def crash_def add_markers_def getitem_def and_then_def
        new_CircleMarker_def)

text \<open>
  C2, amended. For every dataset \<open>F\<close> held in \<open>fatal\<close> whose records all have a latitude
  and a longitude, \<^verbatim>\<open>add_markers\<close> adds one group with exactly \<open>|F|\<close> markers; the \<open>i\<close>-th
  marker is at the \<open>i\<close>-th record's latitude and longitude, its tooltip is that record's
  fatality count, as Python formats it, followed by \<open>Dead\<close>, and its popup is that
  record's crash nature. When a record of \<open>F\<close> lacks a coordinate, \<^verbatim>\<open>add_markers\<close> raises
  \<^verbatim>\<open>ValueError\<close> and adds nothing.
\<close>

theorem add_markers_one_per_record:
  assumes "fatal s = Some F"
  shows "(list_all has_coordinates F \<longrightarrow>
            (\<exists>ms. add_markers float_repr s m =
                Inr (m\<lparr>children := children m @ [Group (FeatureGroup ''Fatal Crashes'' True ms)]\<rparr>)
              \<and> length ms = length F
              \<and> (\<forall>i<length F.
                    map Float (location (ms ! i)) =
                      [Crash_Latitude_GDA94 (F ! i), Crash_Longitude_GDA94 (F ! i)]
                  \<and> tooltip (ms ! i) =
                      format_count float_repr (Count_Casualty_Fatality (F ! i)) @ '' Dead''
                  \<and> popup (ms ! i) = Crash_Nature (F ! i))))
       \<and> (\<not> list_all has_coordinates F \<longrightarrow> add_markers float_repr s m = Inl ValueError)"
proof (cases "list_all has_coordinates F")
  case True
  from markers_ok [OF True, of float_repr] obtain ms where
    ms: "collect (record_marker float_repr) F = Inr ms" "length ms = length F"
    and each: "\<forall>i<length F.
                 map Float (location (ms ! i)) =
                   [Crash_Latitude_GDA94 (F ! i), Crash_Longitude_GDA94 (F ! i)]
               \<and> tooltip (ms ! i) =
                   format_count float_repr (Count_Casualty_Fatality (F ! i)) @ '' Dead''
               \<and> popup (ms ! i) = Crash_Nature (F ! i)"
    by blast
  have "add_markers float_repr s m =
      Inr (m\<lparr>children := children m @ [Group (FeatureGroup ''Fatal Crashes'' True ms)]\<rparr>)"
    by (simp add: add_markers_Some [OF assms] ms and_then_def add_to_map_def)
  with True ms(2) each show ?thesis by blast
next
  case False
  have "add_markers float_repr s m = Inl ValueError"
    by (simp add: add_markers_Some [OF assms] markers_fail [OF False] and_then_def)
  with False show ?thesis by blast
qed

text \<open>
  On the three sample rows: three markers, the first and the last as their rows say; on
  the rows with the missing latitude, the exception.
\<close>

theorem add_markers_sample:
  "(\<exists>ms. add_markers sample_repr (sample_state\<lparr>fatal := Some sample_fatal\<rparr>) empty_map =
          Inr (empty_map\<lparr>children := [Group (FeatureGroup ''Fatal Crashes'' True ms)]\<rparr>)
        \<and> length ms = 3
        \<and> location (ms ! 0) = [-26.5, 153.1] \<and> tooltip (ms ! 0) = ''2 Dead''
        \<and> popup (ms ! 0) = Text ''Head-on''
        \<and> location (ms ! 2) = [-19.26, 146.82] \<and> tooltip (ms ! 2) = ''12 Dead''
        \<and> popup (ms ! 2) = Text ''Angle'')
   \<and> add_markers sample_repr (gap_state\<lparr>fatal := Some gap_fatal\<rparr>) empty_map = Inl ValueError"
proof -
  have loaded: "fatal (sample_state\<lparr>fatal := Some sample_fatal\<rparr>) = Some sample_fatal"
    by simp
  have located: "list_all has_coordinates sample_fatal"
    by (simp add: sample_fatal_def crash_def has_coordinates_def)
  have n: "length sample_fatal = 3" by (simp add: sample_fatal_def)
  from add_markers_one_per_record [OF loaded, of sample_repr empty_map] located
  obtain ms where
    run: "add_markers sample_repr (sample_state\<lparr>fatal := Some sample_fatal\<rparr>) empty_map =
            Inr (empty_map\<lparr>children := children empty_map
                   @ [Group (FeatureGroup ''Fatal Crashes'' True ms)]\<rparr>)"
    and len: "length ms = length sample_fatal"
    and each: "\<forall>i<length sample_fatal.
                 map Float (location (ms ! i)) =
                   [Crash_Latitude_GDA94 (sample_fatal ! i), Crash_Longitude_GDA94 (sample_fatal ! i)]
               \<and> tooltip (ms ! i) =
                   format_count sample_repr (Count_Casualty_Fatality (sample_fatal ! i)) @ '' Dead''
               \<and> popup (ms ! i) = Crash_Nature (sample_fatal ! i)"
    by blast
  from each n have first: "map Float (location (ms ! 0)) = [Float (-26.5), Float 153.1]
      \<and> tooltip (ms ! 0) = ''2 Dead'' \<and> popup (ms ! 0) = Text ''Head-on''"
    by (simp add: sample_fatal_def crash_def format_int_def digits.simps)
  from each n have last: "map Float (location (ms ! 2)) = [Float (-19.26), Float 146.82]
      \<and> tooltip (ms ! 2) = ''12 Dead'' \<and> popup (ms ! 2) = Text ''Angle''"
    by (simp add: sample_fatal_def crash_def format_int_def digits.simps)
  have unmap: "\<And>xs a b. map Float xs = [Float a, Float b] \<Longrightarrow> xs = [a, b]"
    by (auto simp: map_eq_Cons_conv)
  from run have run': "add_markers sample_repr (sample_state\<lparr>fatal := Some sample_fatal\<rparr>) empty_map =
          Inr (empty_map\<lparr>children := [Group (FeatureGroup ''Fatal Crashes'' True ms)]\<rparr>)"
    by (simp add: empty_map_def)
  have gap: "fatal (gap_state\<lparr>fatal := Some gap_fatal\<rparr>) = Some gap_fatal"
    by simp
  have unlocated: "\<not> list_all has_coordinates gap_fatal"
    by (simp add: gap_fatal_def crash_def has_coordinates_def)
  from add_markers_one_per_record [OF gap, of sample_repr empty_map] unlocated
  have fails: "add_markers sample_repr (gap_state\<lparr>fatal := Some gap_fatal\<rparr>) empty_map =
      Inl ValueError"
    by blast
  from run' len n first last fails unmap show ?thesis by auto
qed

text \<open>
  C4. When \<open>fatal\<close> holds a dataset with no rows, each of the three builders returns
  without an exception and adds its layer, with no element in it, to the map.
\<close>

theorem builders_on_empty:
  assumes "fatal s = Some []"
  shows "add_markers float_repr s m =
           Inr (m\<lparr>children := children m @ [Group (FeatureGroup ''Fatal Crashes'' True [])]\<rparr>)
       \<and> add_clusters float_repr s m =
           Inr (m\<lparr>children := children m
                  @ [Cluster (MarkerCluster ''Clustered Markers'' False True [])]\<rparr>)
       \<and> add_heat_map s m =
           Inr (m\<lparr>children := children m @ [Heat (HeatMap [] ''Heat Map'' False True 0.5)]\<rparr>)"
  by (simp add: add_markers_Some [OF assms] add_clusters_Some [OF assms]
      add_heat_map_Some [OF assms] add_to_map_def and_then_def)

theorem builders_on_empty_sample:
  "add_markers sample_repr (sample_state\<lparr>fatal := Some []\<rparr>) empty_map =
     Inr (empty_map\<lparr>children := [Group (FeatureGroup ''Fatal Crashes'' True [])]\<rparr>)
   \<and> add_clusters sample_repr (sample_state\<lparr>fatal := Some []\<rparr>) empty_map =
     Inr (empty_map\<lparr>children := [Cluster (MarkerCluster ''Clustered Markers'' False True [])]\<rparr>)
   \<and> add_heat_map (sample_state\<lparr>fatal := Some []\<rparr>) empty_map =
     Inr (empty_map\<lparr>children := [Heat (HeatMap [] ''Heat Map'' False True 0.5)]\<rparr>)"
proof -
  have empty: "fatal (sample_state\<lparr>fatal := Some []\<rparr>) = Some []" by simp
  show ?thesis
    using builders_on_empty [OF empty, of sample_repr empty_map] by (simp add: empty_map_def)
qed

text \<open>
  C7. For every dataset \<open>F\<close> held in \<open>fatal\<close>, \<^verbatim>\<open>add_clusters\<close> builds the same markers as
  \<^verbatim>\<open>add_markers\<close>. When every record has its coordinates, both return, with one
  marker per record and the two lists equal in every attribute; the cluster the markers
  are added to starts hidden (\<^verbatim>\<open>show=False\<close>) and is listed in the layer control
  (\<^verbatim>\<open>control=True\<close>). When a record lacks a coordinate, both raise \<^verbatim>\<open>ValueError\<close>.
\<close>

theorem add_clusters_same_markers:
  assumes "fatal s = Some F"
  shows "(list_all has_coordinates F \<longrightarrow>
           (\<exists>ms. add_markers float_repr s m =
               Inr (m\<lparr>children := children m @ [Group (FeatureGroup ''Fatal Crashes'' True ms)]\<rparr>)
             \<and> add_clusters float_repr s m' =
               Inr (m'\<lparr>children := children m'
                      @ [Cluster (MarkerCluster ''Clustered Markers'' False True ms)]\<rparr>)
             \<and> length ms = length F))
       \<and> (\<not> list_all has_coordinates F \<longrightarrow>
             add_markers float_repr s m = Inl ValueError
           \<and> add_clusters float_repr s m' = Inl ValueError)"
proof (cases "list_all has_coordinates F")
  case True
  from markers_ok [OF True, of float_repr] obtain ms where
    ms: "collect (record_marker float_repr) F = Inr ms" "length ms = length F"
    by blast
  have "add_markers float_repr s m =
          Inr (m\<lparr>children := children m @ [Group (FeatureGroup ''Fatal Crashes'' True ms)]\<rparr>)"
    by (simp add: add_markers_Some [OF assms] ms(1) and_then_def add_to_map_def)
  moreover have "add_clusters float_repr s m' =
          Inr (m'\<lparr>children := children m'
                 @ [Cluster (MarkerCluster ''Clustered Markers'' False True ms)]\<rparr>)"
    by (simp add: add_clusters_Some [OF assms] ms(1) and_then_def add_to_map_def)
  ultimately show ?thesis using True ms(2) by blast
next
  case False
  have "add_markers float_repr s m = Inl ValueError"
    by (simp add: add_markers_Some [OF assms] markers_fail [OF False] and_then_def)
  moreover have "add_clusters float_repr s m' = Inl ValueError"
    by (simp add: add_clusters_Some [OF assms] markers_fail [OF False] and_then_def)
  ultimately show ?thesis using False by blast
qed

theorem add_clusters_same_markers_sample:
  "(\<exists>ms. add_markers sample_repr (sample_state\<lparr>fatal := Some sample_fatal\<rparr>) empty_map =
          Inr (empty_map\<lparr>children := [Group (FeatureGroup ''Fatal Crashes'' True ms)]\<rparr>)
        \<and> add_clusters sample_repr (sample_state\<lparr>fatal := Some sample_fatal\<rparr>) empty_map =
          Inr (empty_map\<lparr>children := [Cluster (MarkerCluster ''Clustered Markers'' False True ms)]\<rparr>)
        \<and> length ms = 3)
   \<and> add_markers sample_repr (gap_state\<lparr>fatal := Some gap_fatal\<rparr>) empty_map = Inl ValueError
   \<and> add_clusters sample_repr (gap_state\<lparr>fatal := Some gap_fatal\<rparr>) empty_map = Inl ValueError"
proof -
  have loaded: "fatal (sample_state\<lparr>fatal := Some sample_fatal\<rparr>) = Some sample_fatal"
    by simp
  have located: "list_all has_coordinates sample_fatal"
    by (simp add: sample_fatal_def crash_def has_coordinates_def)
  have n: "length sample_fatal = 3" by (simp add: sample_fatal_def)
  have e: "children empty_map = []" by (simp add: empty_map_def)
  have gap: "fatal (gap_state\<lparr>fatal := Some gap_fatal\<rparr>) = Some gap_fatal"
    by simp
  have unlocated: "\<not> list_all has_coordinates gap_fatal"
    by (simp add: gap_fatal_def crash_def has_coordinates_def)
  show ?thesis
    using add_clusters_same_markers [OF loaded, of sample_repr empty_map empty_map]
      add_clusters_same_markers [OF gap, of sample_repr empty_map empty_map]
      located unlocated
    unfolding n e by simp
qed

section \<open>The views\<close>

lemma crashmap_None: "fatal s = None \<Longrightarrow> crashmap float_repr s = Inl TypeError"
  by (simp add: crashmap_def add_markers_None and_then_def)

lemma crashmap_fail:
  assumes "fatal s = Some F" and "\<not> list_all has_coordinates F"
  shows "crashmap float_repr s = Inl ValueError"
  by (simp add: crashmap_def add_markers_Some [OF assms(1)] markers_fail [OF assms(2)]
      and_then_def)

lemma crashmap_ok:
  assumes "fatal s = Some F"
    and "collect (record_marker float_repr) F = Inr ms"
    and "collect heat_point F = Inr ps"
  shows "crashmap float_repr s =
     (let folium_map =
        \<lparr>tiles = None, map_location = (-26.52, 153.09), zoom_start = 13,
         width = ''80%'', height = ''80%'', control_scale = True,
         children =
           [Tile (TileLayer ''OpenStreetMap'' ''Open Street Map'' True),
            Tile (TileLayer ''stamentoner'' ''Black/White Map'' False),
            Group (FeatureGroup ''Fatal Crashes'' True ms),
            Cluster (MarkerCluster ''Clustered Markers'' False True ms),
            Heat (HeatMap ps ''Heat Map'' False True 0.5),
            Control LayerControl]\<rparr>
      in Inr \<lparr>template = ''crashmap.html'', map_div = Markup html folium_map,
              hdr_txt = Markup header folium_map, script_txt = Markup script folium_map,
              title = ''QLD Crash Map Annotated''\<rparr>)"
  by (simp add: crashmap_def add_markers_Some [OF assms(1)] add_clusters_Some [OF assms(1)]
      add_heat_map_Some [OF assms(1)] assms(2,3) and_then_def add_to_map_def
      render_template_def Let_def)

text \<open>
  C3, as claimed, fails: not every loaded dataset gives a composed map. On the two rows
  loaded from the file with an empty latitude, \<^verbatim>\<open>crashmap\<close> raises \<^verbatim>\<open>ValueError\<close> and
  the answer is 500.
\<close>

theorem crashmap_missing_coordinate:
  "load_crash_data keep_text gap_state = (gap_state\<lparr>fatal := Some gap_fatal\<rparr>, Inr gap_fatal)
   \<and> crashmap sample_repr (gap_state\<lparr>fatal := Some gap_fatal\<rparr>) = Inl ValueError
   \<and> status_code (map_sum id Some (crashmap sample_repr (gap_state\<lparr>fatal := Some gap_fatal\<rparr>)))
       = 500"
proof -
  have "crashmap sample_repr (gap_state\<lparr>fatal := Some gap_fatal\<rparr>) = Inl ValueError"
    by (simp add: gap_fatal_def crash_def crashmap_def add_markers_def getitem_def and_then_def
        new_CircleMarker_def add_to_map_def)
  then show ?thesis
    by (simp add: gap_loaded status_code_def and_then_def)
qed

text \<open>
  C3, amended. For every dataset \<open>F\<close> held in \<open>fatal\<close> whose records all have a latitude
  and a longitude, whatever its size, the map that \<^verbatim>\<open>crashmap\<close> renders has exactly these
  children, in this order: the street map tile layer (shown), the black and white tile
  layer (hidden), the marker group, the marker cluster, the heat map, and the layer
  control. So it has two base layers, three data layers and one control. When a record of
  \<open>F\<close> lacks a coordinate, \<^verbatim>\<open>crashmap\<close> raises \<^verbatim>\<open>ValueError\<close>.
\<close>

theorem crashmap_layers:
  assumes "fatal s = Some F"
  shows "(list_all has_coordinates F \<longrightarrow>
           (\<exists>p m ms cs hs.
               crashmap float_repr s = Inr p
             \<and> map_div p = Markup html m \<and> hdr_txt p = Markup header m
             \<and> script_txt p = Markup script m
             \<and> children m =
                 [Tile (TileLayer ''OpenStreetMap'' ''Open Street Map'' True),
                  Tile (TileLayer ''stamentoner'' ''Black/White Map'' False),
                  Group (FeatureGroup ''Fatal Crashes'' True ms),
                  Cluster (MarkerCluster ''Clustered Markers'' False True cs),
                  Heat (HeatMap hs ''Heat Map'' False True 0.5),
                  Control LayerControl]
             \<and> length ms = length F \<and> length cs = length F \<and> length hs = length F
             \<and> length (filter is_base_layer (children m)) = 2
             \<and> length (filter is_data_layer (children m)) = 3
             \<and> length (filter is_control (children m)) = 1))
       \<and> (\<not> list_all has_coordinates F \<longrightarrow> crashmap float_repr s = Inl ValueError)"
proof (cases "list_all has_coordinates F")
  case False
  with crashmap_fail [OF assms False] show ?thesis by blast
next
  case True
  from markers_ok [OF True, of float_repr] obtain ms where
    ms: "collect (record_marker float_repr) F = Inr ms" "length ms = length F"
    by blast
  from points_ok [OF True] obtain ps where
    ps: "collect heat_point F = Inr ps" "length ps = length F"
    by blast
  define m where "m =
     \<lparr>tiles = None, map_location = (-26.52, 153.09), zoom_start = 13,
      width = ''80%'', height = ''80%'', control_scale = True,
      children =
        [Tile (TileLayer ''OpenStreetMap'' ''Open Street Map'' True),
         Tile (TileLayer ''stamentoner'' ''Black/White Map'' False),
         Group (FeatureGroup ''Fatal Crashes'' True ms),
         Cluster (MarkerCluster ''Clustered Markers'' False True ms),
         Heat (HeatMap ps ''Heat Map'' False True 0.5),
         Control LayerControl]\<rparr>"
  define p where "p =
     \<lparr>template = ''crashmap.html'', map_div = Markup html m,
      hdr_txt = Markup header m, script_txt = Markup script m,
      title = ''QLD Crash Map Annotated''\<rparr>"
  have run: "crashmap float_repr s = Inr p"
    by (simp add: crashmap_ok [OF assms ms(1) ps(1)] p_def m_def Let_def)
  have parts: "map_div p = Markup html m \<and> hdr_txt p = Markup header m
      \<and> script_txt p = Markup script m"
    by (simp add: p_def)
  have kids: "children m =
        [Tile (TileLayer ''OpenStreetMap'' ''Open Street Map'' True),
         Tile (TileLayer ''stamentoner'' ''Black/White Map'' False),
         Group (FeatureGroup ''Fatal Crashes'' True ms),
         Cluster (MarkerCluster ''Clustered Markers'' False True ms),
         Heat (HeatMap ps ''Heat Map'' False True 0.5),
         Control LayerControl]"
    by (simp add: m_def)
  have counts: "length (filter is_base_layer (children m)) = 2
      \<and> length (filter is_data_layer (children m)) = 3
      \<and> length (filter is_control (children m)) = 1"
    by (simp add: kids)
  from run parts kids counts ms(2) ps(2) True show ?thesis by blast
qed

theorem crashmap_layers_sample:
  "(\<exists>p m ms cs hs.
      crashmap sample_repr (sample_state\<lparr>fatal := Some sample_fatal\<rparr>) = Inr p
    \<and> map_div p = Markup html m
    \<and> children m =
        [Tile (TileLayer ''OpenStreetMap'' ''Open Street Map'' True),
         Tile (TileLayer ''stamentoner'' ''Black/White Map'' False),
         Group (FeatureGroup ''Fatal Crashes'' True ms),
         Cluster (MarkerCluster ''Clustered Markers'' False True cs),
         Heat (HeatMap hs ''Heat Map'' False True 0.5),
         Control LayerControl]
    \<and> length ms = 3 \<and> length cs = 3 \<and> length hs = 3)
   \<and> crashmap sample_repr (gap_state\<lparr>fatal := Some gap_fatal\<rparr>) = Inl ValueError"
proof -
  have loaded: "fatal (sample_state\<lparr>fatal := Some sample_fatal\<rparr>) = Some sample_fatal"
    by simp
  have located: "list_all has_coordinates sample_fatal"
    by (simp add: sample_fatal_def crash_def has_coordinates_def)
  have n: "length sample_fatal = 3" by (simp add: sample_fatal_def)
  have gap: "fatal (gap_state\<lparr>fatal := Some gap_fatal\<rparr>) = Some gap_fatal"
    by simp
  have unlocated: "\<not> list_all has_coordinates gap_fatal"
    by (simp add: gap_fatal_def crash_def has_coordinates_def)
  show ?thesis
    using crashmap_layers [OF loaded, of sample_repr] crashmap_layers [OF gap, of sample_repr]
      located unlocated
    unfolding n by blast
qed

lemma differ_only_in_Crash_Type_maps:
  "differ_only_in_Crash_Type F F' \<Longrightarrow>
   map (record_marker float_repr) F = map (record_marker float_repr) F'
   \<and> map heat_point F = map heat_point F'"
  unfolding differ_only_in_Crash_Type_def
  by (induction rule: list_all2_induct) (simp_all add: record_marker_def heat_point_def)

text \<open>
  C10. The \<^verbatim>\<open>Crash_Type\<close> column influences no output: for two datasets that differ only
  in that column, the three builders add the same layers and \<^verbatim>\<open>crashmap\<close> returns the same
  page.
\<close>

theorem Crash_Type_ignored:
  assumes "fatal s = Some F" and "fatal s' = Some F'" and "differ_only_in_Crash_Type F F'"
  shows "add_markers float_repr s m = add_markers float_repr s' m
       \<and> add_clusters float_repr s m = add_clusters float_repr s' m
       \<and> add_heat_map s m = add_heat_map s' m
       \<and> crashmap float_repr s = crashmap float_repr s'"
proof -
  from differ_only_in_Crash_Type_maps [OF assms(3), of float_repr]
  have same: "map (record_marker float_repr) F = map (record_marker float_repr) F'"
    "map heat_point F = map heat_point F'"
    by simp_all
  have markers: "collect (record_marker float_repr) F = collect (record_marker float_repr) F'"
    using same(1) by (rule collect_cong_map)
  have points: "collect heat_point F = collect heat_point F'"
    using same(2) by (rule collect_cong_map)
  have a: "\<And>m. add_markers float_repr s m = add_markers float_repr s' m"
    by (simp add: add_markers_Some [OF assms(1)] add_markers_Some [OF assms(2)] markers)
  have b: "\<And>m. add_clusters float_repr s m = add_clusters float_repr s' m"
    by (simp add: add_clusters_Some [OF assms(1)] add_clusters_Some [OF assms(2)] markers)
  have c: "\<And>m. add_heat_map s m = add_heat_map s' m"
    by (simp add: add_heat_map_Some [OF assms(1)] add_heat_map_Some [OF assms(2)] points)
  have "crashmap float_repr s = crashmap float_repr s'"
    by (simp add: crashmap_def a b c)
  with a b c show ?thesis by simp
qed

theorem Crash_Type_ignored_sample:
  "map Crash_Type sample_fatal \<noteq> map Crash_Type sample_retyped
   \<and> add_markers sample_repr (sample_state\<lparr>fatal := Some sample_fatal\<rparr>) empty_map =
     add_markers sample_repr (sample_state\<lparr>fatal := Some sample_retyped\<rparr>) empty_map
   \<and> add_clusters sample_repr (sample_state\<lparr>fatal := Some sample_fatal\<rparr>) empty_map =
     add_clusters sample_repr (sample_state\<lparr>fatal := Some sample_retyped\<rparr>) empty_map
   \<and> add_heat_map (sample_state\<lparr>fatal := Some sample_fatal\<rparr>) empty_map =
     add_heat_map (sample_state\<lparr>fatal := Some sample_retyped\<rparr>) empty_map
   \<and> crashmap sample_repr (sample_state\<lparr>fatal := Some sample_fatal\<rparr>) =
     crashmap sample_repr (sample_state\<lparr>fatal := Some sample_retyped\<rparr>)"
proof -
  have a: "fatal (sample_state\<lparr>fatal := Some sample_fatal\<rparr>) = Some sample_fatal"
    by simp
  have b: "fatal (sample_state\<lparr>fatal := Some sample_retyped\<rparr>) = Some sample_retyped"
    by simp
  have c: "differ_only_in_Crash_Type sample_fatal sample_retyped"
    by (simp add: differ_only_in_Crash_Type_def sample_fatal_def sample_retyped_def crash_def)
  have d: "map Crash_Type sample_fatal \<noteq> map Crash_Type sample_retyped"
    by (simp add: sample_fatal_def sample_retyped_def crash_def)
  show ?thesis
    using Crash_Type_ignored [OF a b c, of sample_repr empty_map] d by simp
qed

text \<open>
  C5, as claimed, fails: a map request that arrives before any load does not succeed.
  With the file present and the global still \<^verbatim>\<open>None\<close>, \<^verbatim>\<open>crashmap\<close> raises
  \<^verbatim>\<open>TypeError\<close> and the answer is 500.
\<close>

theorem crashmap_before_load_fails:
  "fatal sample_state = None
   \<and> files sample_state ''locations.csv'' = Some sample_lines
   \<and> crashmap sample_repr sample_state = Inl TypeError
   \<and> status_code (map_sum id Some (crashmap sample_repr sample_state)) = 500"
  by (simp add: sample_state_def initial_def crashmap_None status_code_def and_then_def)

text \<open>
  C5, amended. \<^verbatim>\<open>crashmap\<close> loads nothing itself: while the global is unset,
  \<^verbatim>\<open>add_markers\<close> raises \<^verbatim>\<open>TypeError\<close> on its first read of it, so \<^verbatim>\<open>crashmap\<close> raises
  and the answer is 500.
\<close>

theorem crashmap_fails_while_unset:
  assumes "fatal s = None"
  shows "add_markers float_repr s m = Inl TypeError
       \<and> crashmap float_repr s = Inl TypeError
       \<and> status_code (map_sum id Some (crashmap float_repr s)) = 500"
  using assms
  by (simp add: add_markers_None crashmap_None status_code_def and_then_def)

theorem crashmap_fails_while_unset_sample:
  "add_markers sample_repr sample_state empty_map = Inl TypeError
   \<and> crashmap sample_repr sample_state = Inl TypeError
   \<and> status_code (map_sum id Some (crashmap sample_repr sample_state)) = 500"
proof -
  have unset: "fatal sample_state = None"
    by (simp add: sample_state_def initial_def)
  show ?thesis
    using crashmap_fails_while_unset [OF unset, of sample_repr empty_map] by blast
qed

lemma warmup_loaded:
  "read_csv infer (files s) ''locations.csv'' [(''Loc_Post_Code'', str)] = Inr D \<Longrightarrow>
   warmup infer s =
     (s\<lparr>stdout := stdout s @ [''data loading ...'', ''data loaded''],
        fatal := Some (fatal_filter D)\<rparr>,
      Inr None)"
  by (simp add: warmup_def print_def load_crash_data_def Let_def)

lemma warmup_None:
  "files s ''locations.csv'' = None \<Longrightarrow>
   warmup infer s = (s\<lparr>stdout := stdout s @ [''data loading ...'']\<rparr>, Inl FileNotFoundError)"
  by (simp add: warmup_def print_def load_crash_data_None)

text \<open>
  Whatever the files, \<^verbatim>\<open>warmup\<close> never gives a response Flask can send: it raises when
  the file is missing and returns \<^verbatim>\<open>None\<close> otherwise.
\<close>

lemma warmup_status_500: "status_code (snd (warmup infer s)) = 500"
proof -
  from read_csv_cases [of infer "files s" "''locations.csv''" "[(''Loc_Post_Code'', str)]"]
  show ?thesis
  proof
    assume "read_csv infer (files s) ''locations.csv'' [(''Loc_Post_Code'', str)] =
        Inl FileNotFoundError \<and> files s ''locations.csv'' = None"
    then show ?thesis
      by (simp add: warmup_None status_code_def and_then_def)
  next
    assume "\<exists>D. read_csv infer (files s) ''locations.csv'' [(''Loc_Post_Code'', str)] = Inr D"
    then obtain D where
      "read_csv infer (files s) ''locations.csv'' [(''Loc_Post_Code'', str)] = Inr D"
      by blast
    then show ?thesis
      by (simp add: warmup_loaded status_code_def and_then_def make_response_def)
  qed
qed

text \<open>
  C6. A request for the warm-up path loads and filters the dataset, but the answer is not
  200: with the sample file, \<^verbatim>\<open>warmup\<close> sets the global to the three fatal rows, prints its
  two lines and returns \<^verbatim>\<open>None\<close>, which Flask answers with 500.
\<close>

theorem warmup_sample_answers_500:
  "warmup keep_text sample_state =
     (sample_state\<lparr>stdout := [''data loading ...'', ''data loaded''], fatal := Some sample_fatal\<rparr>,
      Inr None)
   \<and> status_code (snd (warmup keep_text sample_state)) = 500"
proof -
  have "warmup keep_text sample_state =
     (sample_state\<lparr>stdout := [''data loading ...'', ''data loaded''], fatal := Some sample_fatal\<rparr>,
      Inr None)"
    using warmup_loaded [OF read_sample]
    by (simp add: filter_sample sample_state_def initial_def)
  then show ?thesis
    by (simp add: status_code_def and_then_def make_response_def)
qed

end
